theory Spec2Isabelle
  imports Complex_Main
begin

section \<open>Disposable-income model: taxes, essential expenses, composition\<close>

text \<open>
  The Python sources \<^verbatim>\<open>constants.py\<close>, \<^verbatim>\<open>tax_calculator.py\<close>,
  \<^verbatim>\<open>expenditure_model.py\<close> and \<^verbatim>\<open>disposable_income.py\<close> are embedded as HOL
  functions. Amounts of money and rates are Python floats in the source; here a finite
  float is a real number with exact arithmetic, so the last binary digit of a float is
  not modelled: where an exact amount lies halfway between two cents, the cent the code
  returns is decided by that digit, and the statements below that speak of rounding
  hold for either cent. What is modelled of the floats is their range: in the
  expenditure model and in the composition an amount can leave it, and is then an
  infinity or not a number. A Python exception is a value \<open>Inl e\<close> of a sum type.
\<close>

subsection \<open>Errors and numeric primitives\<close>

text \<open>
  Every explicit \<^verbatim>\<open>raise ValueError\<close> of the source is one of the first three
  constructors, named after what is rejected: the two checks at the head of
  \<^verbatim>\<open>compute_disposable_income\<close> are \<open>InvalidInput\<close>, a state missing from
  \<^verbatim>\<open>STATE_TAX_SCHEDULE\<close> or \<^verbatim>\<open>STATE_TO_REGION\<close> is \<open>UnknownJurisdiction\<close>,
  an age outside \<^verbatim>\<open>_AGE_BREAKS\<close> is \<open>OutOfRange\<close>. The other four are the
  exceptions Python raises by itself on a missing dictionary key, a division by zero,
  an index into an empty list and a power too large for a float.
\<close>

datatype error =
  InvalidInput | UnknownJurisdiction | OutOfRange | KeyError | ZeroDivisionError | IndexError
  | OverflowError

text \<open>Python's \<^verbatim>\<open>round(x)\<close>: to the nearest integer, a tie to the even neighbour.\<close>

definition py_round :: "real \<Rightarrow> int" where
  "py_round x =
     (let f = \<lfloor>x\<rfloor>; d = x - of_int f
      in if d < 1 / 2 then f
         else if 1 / 2 < d then f + 1
         else if even f then f else f + 1)"

text \<open>Python's \<^verbatim>\<open>round(x, n)\<close> for \<open>n\<close> decimal places.\<close>

definition round_nd :: "real \<Rightarrow> nat \<Rightarrow> real" where
  "round_nd x n = of_int (py_round (x * 10 ^ n)) / 10 ^ n"

text \<open>Python's \<^verbatim>\<open>a / b\<close> on floats raises on a zero divisor.\<close>

definition py_div :: "real \<Rightarrow> real \<Rightarrow> error + real" where
  "py_div a b = (if b = 0 then Inl ZeroDivisionError else Inr (a / b))"

subsection \<open>The range of a float\<close>

text \<open>
  A float is finite, an infinity or not a number. A result of float arithmetic that is
  too large becomes an infinity: rounding to the nearest float turns every real from
  \<open>2 ^ 1024 - 2 ^ 970\<close> on into it (the largest finite float is
  \<open>2 ^ 1024 - 2 ^ 971\<close>). Results too small for a float, which become zero in
  Python, stay as they are here.
\<close>

datatype pyfloat = Fin real | PInf | NInf | NaN

definition FLOAT_OVERFLOW :: real where
  "FLOAT_OVERFLOW = 2 ^ 1024 - 2 ^ 970"

definition to_float :: "real \<Rightarrow> pyfloat" where
  "to_float x =
     (if FLOAT_OVERFLOW \<le> x then PInf
      else if x \<le> - FLOAT_OVERFLOW then NInf
      else Fin x)"


fun fadd :: "pyfloat \<Rightarrow> pyfloat \<Rightarrow> pyfloat" where
  "fadd (Fin a) (Fin b) = to_float (a + b)"
| "fadd (Fin a) PInf = PInf"
| "fadd (Fin a) NInf = NInf"
| "fadd PInf (Fin b) = PInf"
| "fadd NInf (Fin b) = NInf"
| "fadd PInf PInf = PInf"
| "fadd NInf NInf = NInf"
| "fadd PInf NInf = NaN"
| "fadd NInf PInf = NaN"
| "fadd NaN y = NaN"
| "fadd x NaN = NaN"


text \<open>An infinity times zero is not a number.\<close>

definition inf_times :: "bool \<Rightarrow> real \<Rightarrow> pyfloat" where
  "inf_times positive a =
     (if a = 0 then NaN
      else if (0 < a) = positive then PInf else NInf)"

fun fmul :: "pyfloat \<Rightarrow> pyfloat \<Rightarrow> pyfloat" where
  "fmul (Fin a) (Fin b) = to_float (a * b)"
| "fmul (Fin a) PInf = inf_times True a"
| "fmul (Fin a) NInf = inf_times False a"
| "fmul PInf (Fin b) = inf_times True b"
| "fmul NInf (Fin b) = inf_times False b"
| "fmul PInf PInf = PInf"
| "fmul NInf NInf = PInf"
| "fmul PInf NInf = NInf"
| "fmul NInf PInf = NInf"
| "fmul NaN y = NaN"
| "fmul x NaN = NaN"


text \<open>Python's \<^verbatim>\<open>x <= y\<close> on floats: false whenever one side is not a number.\<close>

fun fle :: "pyfloat \<Rightarrow> pyfloat \<Rightarrow> bool" where
  "fle (Fin a) (Fin b) = (a \<le> b)"
| "fle (Fin a) PInf = True"
| "fle (Fin a) NInf = False"
| "fle PInf (Fin b) = False"
| "fle NInf (Fin b) = True"
| "fle PInf PInf = True"
| "fle NInf NInf = True"
| "fle PInf NInf = False"
| "fle NInf PInf = True"
| "fle NaN y = False"
| "fle x NaN = False"

text \<open>
  Python's \<^verbatim>\<open>round(x, n)\<close> on a float: an infinity and not-a-number round to
  themselves.
\<close>

fun fround :: "pyfloat \<Rightarrow> nat \<Rightarrow> pyfloat" where
  "fround (Fin x) n = Fin (round_nd x n)"
| "fround PInf n = PInf"
| "fround NInf n = NInf"
| "fround NaN n = NaN"

subsection \<open>constants.py\<close>

definition STANDARD_DEDUCTION_SINGLE :: real where
  "STANDARD_DEDUCTION_SINGLE = 15000"

text \<open>A bracket is \<open>(upper, rate)\<close>; the upper bound \<^verbatim>\<open>None\<close> is the top bracket.\<close>

definition FEDERAL_BRACKETS_SINGLE_2025 :: "(real option \<times> real) list" where
  "FEDERAL_BRACKETS_SINGLE_2025 =
     [(Some 11925, 0.10),
      (Some 48475, 0.12),
      (Some 103350, 0.22),
      (Some 197300, 0.24),
      (Some 250525, 0.32),
      (Some 626350, 0.35),
      (None, 0.37)]"


text \<open>The dictionaries of the source are association lists, read with \<open>map_of\<close>.\<close>

definition STATE_TAX_SCHEDULE :: "(string \<times> (real \<times> real) list) list" where
  "STATE_TAX_SCHEDULE =
     [(''Texas'', [(0, 0.0)]),
      (''Florida'', [(0, 0.0)]),
      (''Nevada'', [(0, 0.0)]),
      (''Washington'', [(0, 0.0)]),
      (''Wyoming'', [(0, 0.0)]),
      (''Illinois'',
         [(0, 0.020), (30000, 0.040), (50000, 0.046), (75000, 0.048), (100000, 0.049),
          (200000, 0.049)]),
      (''Georgia'',
         [(0, 0.00), (20000, 0.025), (40000, 0.038), (60000, 0.042), (85000, 0.044),
          (150000, 0.047), (300000, 0.049)]),
      (''New York'',
         [(0, 0.00), (20000, 0.030), (40000, 0.045), (65000, 0.055), (100000, 0.060),
          (150000, 0.065), (300000, 0.070), (500000, 0.080), (1000000, 0.090)]),
      (''California'',
         [(0, 0.00), (20000, 0.030), (40000, 0.052), (65000, 0.068), (100000, 0.078),
          (150000, 0.085), (300000, 0.095), (500000, 0.105), (1000000, 0.120)]),
      (''Pennsylvania'', [(0, 0.0307)]),
      (''Ohio'', [(0, 0.00), (26050, 0.025), (100000, 0.033), (115300, 0.040)]),
      (''Michigan'', [(0, 0.0425)]),
      (''North Carolina'', [(0, 0.045)]),
      (''Virginia'',
         [(0, 0.00), (17000, 0.020), (17001, 0.030), (17001, 0.050), (50000, 0.055),
          (100000, 0.057), (200000, 0.058)]),
      (''Colorado'', [(0, 0.044)]),
      (''Arizona'', [(0, 0.025)]),
      (''Massachusetts'', [(0, 0.050)]),
      (''Tennessee'', [(0, 0.0)])]"

definition STATE_TO_REGION :: "(string \<times> string) list" where
  "STATE_TO_REGION =
     [(''Connecticut'', ''Northeast''), (''Maine'', ''Northeast''),
      (''Massachusetts'', ''Northeast''), (''New Hampshire'', ''Northeast''),
      (''Rhode Island'', ''Northeast''), (''Vermont'', ''Northeast''),
      (''New Jersey'', ''Northeast''), (''New York'', ''Northeast''),
      (''Pennsylvania'', ''Northeast''),
      (''Illinois'', ''Midwest''), (''Indiana'', ''Midwest''), (''Michigan'', ''Midwest''),
      (''Ohio'', ''Midwest''), (''Wisconsin'', ''Midwest''), (''Iowa'', ''Midwest''),
      (''Kansas'', ''Midwest''), (''Minnesota'', ''Midwest''), (''Missouri'', ''Midwest''),
      (''Nebraska'', ''Midwest''), (''North Dakota'', ''Midwest''),
      (''South Dakota'', ''Midwest''),
      (''Delaware'', ''South''), (''Florida'', ''South''), (''Georgia'', ''South''),
      (''Maryland'', ''South''), (''North Carolina'', ''South''),
      (''South Carolina'', ''South''), (''Virginia'', ''South''),
      (''West Virginia'', ''South''), (''District of Columbia'', ''South''),
      (''Alabama'', ''South''), (''Kentucky'', ''South''), (''Mississippi'', ''South''),
      (''Tennessee'', ''South''), (''Arkansas'', ''South''), (''Louisiana'', ''South''),
      (''Oklahoma'', ''South''), (''Texas'', ''South''),
      (''Arizona'', ''West''), (''Colorado'', ''West''), (''Idaho'', ''West''),
      (''Montana'', ''West''), (''Nevada'', ''West''), (''New Mexico'', ''West''),
      (''Utah'', ''West''), (''Wyoming'', ''West''), (''Alaska'', ''West''),
      (''California'', ''West''), (''Hawaii'', ''West''), (''Oregon'', ''West''),
      (''Washington'', ''West'')]"

definition ESSENTIAL_FRACTIONS :: "(string \<times> real) list" where
  "ESSENTIAL_FRACTIONS =
     [(''Food'', 0.70),
      (''Housing'', 1.00),
      (''Utilities, fuel, public services'', 1.00),
      (''Household operations'', 0.50),
      (''Housekeeping supplies'', 0.70),
      (''Household furnishings and equipement'', 0.20),
      (''Apparel and services'', 0.60),
      (''Transportation'', 0.75),
      (''Healthcare'', 1.00),
      (''Entertainment'', 0.00),
      (''Personal care'', 0.80),
      (''Education'', 0.50),
      (''Miscellaneous'', 0.00),
      (''Personal insurance'', 0.10)]"

definition INCOME_ELASTICITY :: "(string \<times> real) list" where
  "INCOME_ELASTICITY =
     [(''Food'', 0.55),
      (''Housing'', 0.70),
      (''Utilities, fuel, public services'', 0.60),
      (''Household operations'', 0.90),
      (''Housekeeping supplies'', 0.75),
      (''Household furnishings and equipement'', 1.10),
      (''Apparel and services'', 0.85),
      (''Transportation'', 0.80),
      (''Healthcare'', 0.65),
      (''Entertainment'', 1.20),
      (''Personal care'', 0.75),
      (''Education'', 0.90),
      (''Miscellaneous'', 1.00),
      (''Personal insurance'', 0.95)]"

definition AVG_INCOME_BY_AGE :: "(string \<times> real) list" where
  "AVG_INCOME_BY_AGE =
     [(''Under 25'', 42000),
      (''25-34'', 62000),
      (''35-44'', 83000),
      (''45-54'', 88000),
      (''55-64'', 80000),
      (''65-74'', 58000),
      (''75 and older'', 44000)]"

subsection \<open>tax\_calculator.py: federal income tax\<close>

text \<open>
  The \<^verbatim>\<open>for\<close> loop of \<^verbatim>\<open>compute_federal_tax\<close> over the brackets, with its
  state \<^verbatim>\<open>prev_limit\<close> and \<^verbatim>\<open>tax\<close> as arguments; the \<^verbatim>\<open>break\<close> is the
  branch that returns without a recursive call.
\<close>

fun federal_loop :: "(real option \<times> real) list \<Rightarrow> real \<Rightarrow> real \<Rightarrow> real \<Rightarrow> real" where
  "federal_loop [] taxable prev_limit tax = tax"
| "federal_loop ((None, rate) # rest) taxable prev_limit tax =
     (let bracket_income = max 0 (taxable - prev_limit)
      in federal_loop rest taxable prev_limit (tax + bracket_income * rate))"
| "federal_loop ((Some upper, rate) # rest) taxable prev_limit tax =
     (let bracket_income = max 0 (min taxable upper - prev_limit);
          tax' = tax + bracket_income * rate
      in if taxable \<le> upper then tax'
         else federal_loop rest taxable upper tax')"

text \<open>The tax accumulated by the loop, before the final \<^verbatim>\<open>round(tax, 2)\<close>.\<close>

definition federal_tax_unrounded :: "real \<Rightarrow> real" where
  "federal_tax_unrounded gross_income =
     (let taxable = max 0 (gross_income - STANDARD_DEDUCTION_SINGLE)
      in federal_loop FEDERAL_BRACKETS_SINGLE_2025 taxable 0 0)"

definition compute_federal_tax :: "real \<Rightarrow> real" where
  "compute_federal_tax gross_income = round_nd (federal_tax_unrounded gross_income) 2"

subsection \<open>tax\_calculator.py: FICA\<close>



subsection \<open>tax\_calculator.py: state income tax\<close>

text \<open>
  The loop of \<^verbatim>\<open>_interpolate_rate\<close> over \<^verbatim>\<open>range(len(schedule) - 1)\<close> reads the
  pairs \<^verbatim>\<open>schedule[i]\<close>, \<^verbatim>\<open>schedule[i + 1]\<close>: the recursion walks the list two
  elements at a time. When the loop ends without a return, \<^verbatim>\<open>schedule[-1][1]\<close> is
  the rate of the one element left, and an \<^verbatim>\<open>IndexError\<close> on the empty list.
\<close>

fun interpolate_scan :: "(real \<times> real) list \<Rightarrow> real \<Rightarrow> error + real" where
  "interpolate_scan ((lo_inc, lo_rate) # (hi_inc, hi_rate) # rest) income =
     (if lo_inc \<le> income \<and> income \<le> hi_inc then
        (if hi_inc = lo_inc then Inr lo_rate
         else case py_div (income - lo_inc) (hi_inc - lo_inc) of
                Inl e \<Rightarrow> Inl e
              | Inr fraction \<Rightarrow> Inr (lo_rate + fraction * (hi_rate - lo_rate)))
      else interpolate_scan ((hi_inc, hi_rate) # rest) income)"
| "interpolate_scan [(last_inc, last_rate)] income = Inr last_rate"
| "interpolate_scan [] income = Inl IndexError"

definition interpolate_rate :: "(real \<times> real) list \<Rightarrow> real \<Rightarrow> error + real" where
  "interpolate_rate schedule income =
     (if length schedule = 1 then Inr (snd (schedule ! 0))
      else interpolate_scan schedule income)"




subsection \<open>expenditure\_model.py\<close>

definition AGE_BREAKS :: "(int \<times> int \<times> string) list" where
  "AGE_BREAKS =
     [(0, 24, ''Under 25''),
      (25, 34, ''25-34''),
      (35, 44, ''35-44''),
      (45, 54, ''45-54''),
      (55, 64, ''55-64''),
      (65, 74, ''65-74''),
      (75, 999, ''75 and older'')]"

text \<open>The loop of \<^verbatim>\<open>get_age_group\<close>; falling off its end is the \<^verbatim>\<open>raise\<close>.\<close>

fun age_group_scan :: "(int \<times> int \<times> string) list \<Rightarrow> int \<Rightarrow> error + string" where
  "age_group_scan [] age = Inl OutOfRange"
| "age_group_scan ((lo, hi, label) # rest) age =
     (if lo \<le> age \<and> age \<le> hi then Inr label else age_group_scan rest age)"

definition get_age_group :: "int \<Rightarrow> error + string" where
  "get_age_group age = age_group_scan AGE_BREAKS age"

definition get_region_for_state :: "string \<Rightarrow> error + string" where
  "get_region_for_state state =
     (case map_of STATE_TO_REGION state of
        None \<Rightarrow> Inl UnknownJurisdiction
      | Some r \<Rightarrow> Inr r)"

text \<open>
  \<^verbatim>\<open>_scale_expenditure\<close>. Past the guard both numbers are positive, so the division
  has a non-zero divisor and \<^verbatim>\<open>ratio ** beta\<close> is the real power of a positive base.
\<close>

definition scale_expenditure :: "real \<Rightarrow> real \<Rightarrow> real \<Rightarrow> real \<Rightarrow> real" where
  "scale_expenditure bls_amount salary avg_income beta =
     (if avg_income \<le> 0 \<or> salary \<le> 0 then bls_amount
      else (let ratio = salary / avg_income in bls_amount * (ratio powr beta)))"

text \<open>
  The same function with the range of the floats, as the loop over the categories
  meets it. The quotient of two positive floats is finite or the positive infinity.
  Python's \<^verbatim>\<open>**\<close> raises \<^verbatim>\<open>OverflowError\<close> when the power of a finite base is too
  large for a float; the power of the infinity is the infinity for a positive exponent,
  \<open>1.0\<close> for the exponent zero and \<open>0.0\<close> for a negative one. The product with the
  baseline does not raise: it becomes an infinity, or not a number for a baseline of
  zero and an infinite power.
\<close>

definition scale_expenditure_float :: "pyfloat \<Rightarrow> real \<Rightarrow> real \<Rightarrow> real \<Rightarrow> error + pyfloat" where
  "scale_expenditure_float bls_amount salary avg_income beta =
     (if avg_income \<le> 0 \<or> salary \<le> 0 then Inr bls_amount
      else (let ratio = salary / avg_income
            in if FLOAT_OVERFLOW \<le> ratio then
                 Inr (fmul bls_amount
                        (if 0 < beta then PInf else if beta = 0 then Fin 1 else Fin 0))
               else if FLOAT_OVERFLOW \<le> ratio powr beta then Inl OverflowError
               else Inr (fmul bls_amount (Fin (ratio powr beta)))))"

text \<open>
  The table handed over by the loader, with the four keys the model reads. A missing
  age group or region is a \<^verbatim>\<open>KeyError\<close>; a missing category reads as \<open>0\<close>.
\<close>

record exp_data =
  by_age :: "string \<rightharpoonup> (string \<rightharpoonup> real)"
  by_region :: "string \<rightharpoonup> (string \<rightharpoonup> real)"
  mean_income_by_age :: "string \<rightharpoonup> real"
  categories :: "string list"

record category_info =
  bls_age :: real
  bls_region :: real
  bls_blended :: pyfloat
  scaled :: pyfloat
  alpha :: real
  beta :: real
  essential :: pyfloat

text \<open>Python's \<^verbatim>\<open>d.get(key, default)\<close>.\<close>

definition dict_get :: "('k \<rightharpoonup> 'v) \<Rightarrow> 'k \<Rightarrow> 'v \<Rightarrow> 'v" where
  "dict_get d k dflt = (case d k of None \<Rightarrow> dflt | Some v \<Rightarrow> v)"

text \<open>
  One pass of the body of the loop over the categories. The amounts of the table are
  finite floats; the blended baseline is the first float the loop computes.
\<close>

definition category_entry ::
  "(string \<rightharpoonup> real) \<Rightarrow> (string \<rightharpoonup> real) \<Rightarrow> real \<Rightarrow> real \<Rightarrow> real \<Rightarrow> real \<Rightarrow> string
     \<Rightarrow> error + category_info" where
  "category_entry age_data region_data w_age w_reg salary avg_income cat =
     (let age_bls = dict_get age_data cat 0;
          reg_bls = dict_get region_data cat 0;
          bls_base = to_float (w_age * age_bls + w_reg * reg_bls);
          b = dict_get (map_of INCOME_ELASTICITY) cat 1
      in case scale_expenditure_float bls_base salary avg_income b of
           Inl e \<Rightarrow> Inl e
         | Inr s \<Rightarrow>
             (let a = dict_get (map_of ESSENTIAL_FRACTIONS) cat 0
              in Inr \<lparr> bls_age = age_bls,
                       bls_region = reg_bls,
                       bls_blended = bls_base,
                       scaled = s,
                       alpha = a,
                       beta = b,
                       essential = fmul s (Fin a) \<rparr>))"

text \<open>
  The loop itself: its state is \<^verbatim>\<open>by_category\<close>, \<^verbatim>\<open>total_essential\<close> and
  \<^verbatim>\<open>total_all\<close>; an exception in its body ends it.
\<close>

fun category_loop ::
  "string list \<Rightarrow> (string \<Rightarrow> error + category_info)
     \<Rightarrow> (string \<rightharpoonup> category_info) \<times> pyfloat \<times> pyfloat
     \<Rightarrow> error + (string \<rightharpoonup> category_info) \<times> pyfloat \<times> pyfloat" where
  "category_loop [] entry st = Inr st"
| "category_loop (cat # rest) entry (by_cat, tot_ess, tot_all) =
     (case entry cat of
        Inl e \<Rightarrow> Inl e
      | Inr info \<Rightarrow>
          category_loop rest entry
            (by_cat(cat \<mapsto> info), fadd tot_ess (essential info), fadd tot_all (scaled info)))"

record expenses =
  total_essential :: pyfloat
  total_all :: pyfloat
  by_category :: "string \<rightharpoonup> category_info"
  age_group :: string
  region :: string
  avg_income_for_age_group :: real
  income_ratio :: pyfloat

definition compute_essential_expenses ::
  "real \<Rightarrow> int \<Rightarrow> string \<Rightarrow> exp_data \<Rightarrow> bool \<Rightarrow> error + expenses" where
  "compute_essential_expenses salary age state ed use_region_blend =
     (case get_age_group age of
        Inl e \<Rightarrow> Inl e
      | Inr grp \<Rightarrow>
     (case get_region_for_state state of
        Inl e \<Rightarrow> Inl e
      | Inr rgn \<Rightarrow>
     (case map_of AVG_INCOME_BY_AGE grp of
        None \<Rightarrow> Inl KeyError
      | Some fallback \<Rightarrow>
     (let avg_income = dict_get (mean_income_by_age ed) grp fallback
      in case by_age ed grp of
           None \<Rightarrow> Inl KeyError
         | Some age_data \<Rightarrow>
        (case by_region ed rgn of
           None \<Rightarrow> Inl KeyError
         | Some region_data \<Rightarrow>
        (let w_age = (if use_region_blend then 0.6 else 1.0);
             w_reg = (if use_region_blend then 0.4 else 0.0)
         in case category_loop (categories ed)
                   (category_entry age_data region_data w_age w_reg salary avg_income)
                   (Map.empty, Fin 0, Fin 0) of
              Inl e \<Rightarrow> Inl e
            | Inr (by_cat, tot_ess, tot_all) \<Rightarrow>
                Inr \<lparr> total_essential = fround tot_ess 2,
                       total_all = fround tot_all 2,
                       by_category = by_cat,
                       age_group = grp,
                       region = rgn,
                       avg_income_for_age_group = avg_income,
                       income_ratio =
                         (if avg_income > 0 then to_float (salary / avg_income)
                          else Fin 1.0) \<rparr>))))))"

subsection \<open>disposable\_income.py\<close>




subsection \<open>data\_loader.py: the table the loader hands over\<close>


definition REGION_COLS :: "(string \<times> nat) list" where
  "REGION_COLS =
     [(''Northeast'', 8),
      (''Midwest'', 9),
      (''South'', 10),
      (''West'', 11)]"


text \<open>No baseline amount of the table is negative.\<close>

definition nonneg_baselines :: "exp_data \<Rightarrow> bool" where
  "nonneg_baselines ed \<longleftrightarrow>
     (\<forall>grp data cat v. by_age ed grp = Some data \<and> data cat = Some v \<longrightarrow> 0 \<le> v)
     \<and> (\<forall>rgn data cat v. by_region ed rgn = Some data \<and> data cat = Some v \<longrightarrow> 0 \<le> v)"

text \<open>
  A small table for evaluating the model, with the amounts that the header comment of
  \<^verbatim>\<open>data_loader.py\<close> shows for its output: Food and Housing for the age group
  Under 25 and the region Northeast, and the mean income of the age group Under 25.
  The other age groups and regions are present and hold no category.
\<close>

definition sample_exp_data :: exp_data where
  "sample_exp_data =
     \<lparr> by_age = map_of
         [(''Under 25'', map_of [(''Food'', 7215), (''Housing'', 16853)]),
          (''25-34'', Map.empty),
          (''35-44'', Map.empty),
          (''45-54'', Map.empty),
          (''55-64'', Map.empty),
          (''65-74'', Map.empty),
          (''75 and older'', Map.empty)],
       by_region = map_of
         [(''Northeast'', map_of [(''Food'', 11372), (''Housing'', 29469)]),
          (''Midwest'', Map.empty),
          (''South'', Map.empty),
          (''West'', Map.empty)],
       mean_income_by_age = map_of [(''Under 25'', 48514)],
       categories = [''Food'', ''Housing''] \<rparr>"

text \<open>
  The same table with one more category, Entertainment, whose essential fraction is 0
  and whose elasticity is 1.20; its amount of 2000 for the age group Under 25 is an
  example value.
\<close>

definition sample_exp_data_entertainment :: exp_data where
  "sample_exp_data_entertainment =
     sample_exp_data
       \<lparr> by_age := (by_age sample_exp_data)
           (''Under 25'' \<mapsto>
              map_of [(''Food'', 7215), (''Housing'', 16853), (''Entertainment'', 2000)]),
         categories := [''Food'', ''Housing'', ''Entertainment''] \<rparr>"

section \<open>Properties\<close>

subsection \<open>Rounding\<close>

lemmas round_defs = round_nd_def py_round_def Let_def

lemma py_round_mono: "x \<le> y \<Longrightarrow> py_round x \<le> py_round y"
proof -
  assume xy: "x \<le> y"
  have fm: "\<lfloor>x\<rfloor> \<le> \<lfloor>y\<rfloor>" using xy by (rule floor_mono)
  show ?thesis
  proof (cases "\<lfloor>x\<rfloor> = \<lfloor>y\<rfloor>")
    case True
    then show ?thesis using xy by (auto simp: py_round_def Let_def)
  next
    case False
    then have "\<lfloor>x\<rfloor> + 1 \<le> \<lfloor>y\<rfloor>" using fm by simp
    moreover have "py_round x \<le> \<lfloor>x\<rfloor> + 1" by (simp add: py_round_def Let_def)
    moreover have "\<lfloor>y\<rfloor> \<le> py_round y" by (simp add: py_round_def Let_def)
    ultimately show ?thesis by linarith
  qed
qed

lemma round_nd_mono: "x \<le> y \<Longrightarrow> round_nd x n \<le> round_nd y n"
  by (simp add: round_nd_def divide_right_mono py_round_mono)





subsection \<open>Federal income tax\<close>

lemmas federal_defs = compute_federal_tax_def federal_tax_unrounded_def
  FEDERAL_BRACKETS_SINGLE_2025_def STANDARD_DEDUCTION_SINGLE_def

text \<open>
  C3. With the 2025 single-filer constants, the federal tax on a gross income of 60000
  is exactly 5161.50 and on 100000 exactly 13614.00.
\<close>

theorem federal_known_values:
  "compute_federal_tax 60000 = 5161.50 \<and> compute_federal_tax 100000 = 13614.00"
  by (simp add: federal_defs round_defs)

text \<open>
  C10. A gross income between 0 and the standard deduction of 15000 pays no federal
  tax: the taxable income clamps to zero and the first bracket adds nothing.
\<close>

theorem federal_zero_below_deduction:
  "0 \<le> gross_income \<Longrightarrow> gross_income \<le> 15000 \<Longrightarrow> compute_federal_tax gross_income = 0"
  by (simp add: federal_defs round_defs)

theorem federal_zero_below_deduction_witness:
  "(0::real) \<le> 15000 \<and> (15000::real) \<le> 15000 \<and> compute_federal_tax 15000 = 0
   \<and> (0::real) \<le> 0 \<and> compute_federal_tax 0 = 0"
  using federal_zero_below_deduction [of 15000] federal_zero_below_deduction [of 0] by simp








subsection \<open>FICA\<close>




subsection \<open>State income tax\<close>

lemma schedule_nonempty:
  "map_of STATE_TAX_SCHEDULE state = Some schedule \<Longrightarrow> schedule \<noteq> []"
  by (drule map_of_SomeD) (auto simp: STATE_TAX_SCHEDULE_def)

lemma interpolate_scan_total:
  "schedule \<noteq> [] \<Longrightarrow> \<exists>r. interpolate_scan schedule income = Inr r"
  by (induction schedule income rule: interpolate_scan.induct) (auto simp: py_div_def)

lemma interpolate_rate_total:
  "schedule \<noteq> [] \<Longrightarrow> \<exists>r. interpolate_rate schedule income = Inr r"
  by (simp add: interpolate_rate_def interpolate_scan_total)

lemma interpolate_scan_clamp:
  "schedule \<noteq> [] \<Longrightarrow> \<forall>(t, r) \<in> set schedule. t < income \<Longrightarrow>
   interpolate_scan schedule income = Inr (snd (last schedule))"
  by (induction schedule income rule: interpolate_scan.induct) auto

lemma interpolate_rate_clamp:
  "schedule \<noteq> [] \<Longrightarrow> \<forall>(t, r) \<in> set schedule. t < income \<Longrightarrow>
   interpolate_rate schedule income = Inr (snd (last schedule))"
  by (cases schedule) (auto simp: interpolate_rate_def interpolate_scan_clamp)

text \<open>
  A zero-width segment \<open>(x, r1), (x, r2)\<close> is reached by the loop only when it is the
  first segment. Otherwise the segment before it ends at \<open>x\<close> and answers first, with
  the fraction 1, which is again the rate \<open>r1\<close>.
\<close>

lemma interpolate_scan_zero_width:
  "\<forall>(t, r) \<in> set pre. t < x \<Longrightarrow>
   interpolate_scan (pre @ (x, r1) # (x, r2) # post) x = Inr r1"
proof (induction pre rule: induct_list012)
  case 1
  then show ?case by simp
next
  case (2 a)
  then show ?case by (cases a) (simp add: py_div_def)
next
  case (3 a b pre)
  then show ?case by (cases a; cases b) auto
qed

lemma interpolate_rate_zero_width:
  "\<forall>(t, r) \<in> set pre. t < x \<Longrightarrow>
   interpolate_rate (pre @ (x, r1) # (x, r2) # post) x = Inr r1"
  by (simp add: interpolate_rate_def interpolate_scan_zero_width)



text \<open>
  C6. For every schedule of the state-tax table and every income of at least 0 the
  interpolation returns a rate and never divides by zero; an income beyond every
  breakpoint gets the rate of the last breakpoint; and at the income of a zero-width
  segment (two consecutive breakpoints with the same threshold, all earlier thresholds
  being smaller) it returns the rate of the lower breakpoint.
\<close>

theorem interpolation_total:
  assumes "map_of STATE_TAX_SCHEDULE state = Some schedule" and "0 \<le> income"
  shows "(\<exists>r. interpolate_rate schedule income = Inr r)
    \<and> interpolate_rate schedule income \<noteq> Inl ZeroDivisionError
    \<and> ((\<forall>(t, r) \<in> set schedule. t < income) \<longrightarrow>
         interpolate_rate schedule income = Inr (snd (last schedule)))
    \<and> (\<forall>pre x r1 r2 post.
         schedule = pre @ (x, r1) # (x, r2) # post \<and> (\<forall>(t, r) \<in> set pre. t < x) \<longrightarrow>
         interpolate_rate schedule x = Inr r1)"
proof -
  have ne: "schedule \<noteq> []" using assms(1) by (rule schedule_nonempty)
  obtain r where r: "interpolate_rate schedule income = Inr r"
    using interpolate_rate_total [OF ne] by blast
  show ?thesis
    using r ne by (auto simp: interpolate_rate_clamp interpolate_rate_zero_width)
qed

theorem interpolation_total_witness:
  "interpolate_rate [(0, 0.00), (17000, 0.020), (17001, 0.030), (17001, 0.050),
       (50000, 0.055), (100000, 0.057), (200000, 0.058)] 17001 = Inr 0.030
   \<and> interpolate_rate [(0, 0.00), (17000, 0.020), (17001, 0.030), (17001, 0.050),
       (50000, 0.055), (100000, 0.057), (200000, 0.058)] 250000 = Inr 0.058"
proof -
  let ?va = "[(0, 0.00), (17000, 0.020), (17001, 0.030), (17001, 0.050),
       (50000, 0.055), (100000, 0.057), (200000, 0.058)] :: (real \<times> real) list"
  have m: "map_of STATE_TAX_SCHEDULE ''Virginia'' = Some ?va"
    by (simp add: STATE_TAX_SCHEDULE_def)
  have a: "(0::real) \<le> 17001" and b: "(0::real) \<le> 250000" by simp_all
  note at_threshold = interpolation_total [OF m a]
  note beyond = interpolation_total [OF m b]
  from at_threshold have z: "\<forall>pre x r1 r2 post.
      ?va = pre @ (x, r1) # (x, r2) # post \<and> (\<forall>(t, r) \<in> set pre. t < x) \<longrightarrow>
      interpolate_rate ?va x = Inr r1"
    by blast
  have "interpolate_rate ?va 17001 = Inr 0.030"
    using z [rule_format, of "[(0, 0.00), (17000, 0.020)]" 17001 "0.030" "0.050"
        "[(50000, 0.055), (100000, 0.057), (200000, 0.058)]"] by simp
  moreover have "interpolate_rate ?va 250000 = Inr 0.058"
    using beyond by simp
  ultimately show ?thesis by simp
qed

subsection \<open>Engel scaling\<close>

text \<open>
  C7. Scaling at the reference income is the identity: for every baseline, every
  elasticity and every positive income \<open>X\<close>, the amount scaled from \<open>X\<close> to \<open>X\<close> is
  the baseline; and when the reference income or the salary is not positive the
  baseline is returned unscaled.
\<close>

theorem scale_identity:
  "(0 < X \<longrightarrow> scale_expenditure B X X b = B)
   \<and> (avg_income \<le> 0 \<or> salary \<le> 0 \<longrightarrow> scale_expenditure B salary avg_income b = B)"
  by (simp add: scale_expenditure_def)

theorem scale_identity_witness:
  "scale_expenditure 9630 62000 62000 0.55 = 9630
   \<and> scale_expenditure 9630 0 62000 0.55 = 9630
   \<and> scale_expenditure 9630 50000 0 0.55 = 9630"
  using scale_identity [of 62000 9630 "0.55" 62000 0]
    scale_identity [of 1 9630 "0.55" 0 50000] by simp

subsection \<open>Float range\<close>

lemma FLOAT_OVERFLOW_bounds: "10 ^ 308 < FLOAT_OVERFLOW" "FLOAT_OVERFLOW < 10 ^ 309"
  by (simp_all add: FLOAT_OVERFLOW_def)

lemma FLOAT_OVERFLOW_pos: "0 < FLOAT_OVERFLOW"
  by (simp add: FLOAT_OVERFLOW_def)

lemma to_float_Fin: "\<bar>x\<bar> < FLOAT_OVERFLOW \<Longrightarrow> to_float x = Fin x"
  by (auto simp: to_float_def)

lemma to_float_nonneg:
  "0 \<le> x \<Longrightarrow> to_float x = PInf \<and> FLOAT_OVERFLOW \<le> x \<or> to_float x = Fin x \<and> x < FLOAT_OVERFLOW"
  using FLOAT_OVERFLOW_pos by (auto simp: to_float_def)

lemma fadd_NaN_right: "fadd x NaN = NaN"
  by (cases x) simp_all

lemma fle_fround: "fle x y \<Longrightarrow> fle (fround x n) (fround y n)"
  by (cases x; cases y) (simp_all add: round_nd_mono)

text \<open>A float that is at least zero: a finite one or the positive infinity.\<close>

lemma fle_zero_cases: "fle (Fin 0) x \<longleftrightarrow> x = PInf \<or> (\<exists>a. x = Fin a \<and> 0 \<le> a)"
  by (cases x) auto

lemma totals_step:
  assumes "fle (Fin 0) te" "fle te ta" "0 \<le> e" "e \<le> s"
  shows "fle (Fin 0) (fadd te (Fin e)) \<and> fle (fadd te (Fin e)) (fadd ta (Fin s))"
proof -
  from assms(1) consider "te = PInf" | t where "te = Fin t" "0 \<le> t"
    by (auto simp: fle_zero_cases)
  then show ?thesis
  proof cases
    case 1
    then have "ta = PInf" using assms(2) by (cases ta) auto
    with 1 show ?thesis by simp
  next
    case 2
    from assms(2) 2 consider "ta = PInf" | a where "ta = Fin a" "t \<le> a"
      by (cases ta) auto
    then show ?thesis
    proof cases
      case 1
      then show ?thesis using 2 assms(3) to_float_nonneg [of "t + e"] by auto
    next
      case 2: (2 a)
      have "0 \<le> t + e" "t + e \<le> a + s" "0 \<le> a + s" using \<open>0 \<le> t\<close> 2 assms(3,4) by auto
      then show ?thesis
        using \<open>te = Fin t\<close> 2 to_float_nonneg [of "t + e"] to_float_nonneg [of "a + s"]
        by auto
    qed
  qed
qed

subsection \<open>Essential expenses\<close>


lemma sample_nonneg: "nonneg_baselines sample_exp_data"
  by (auto simp: nonneg_baselines_def sample_exp_data_def split: if_splits)

lemma alpha_range:
  "0 \<le> dict_get (map_of ESSENTIAL_FRACTIONS) cat 0 \<and> dict_get (map_of ESSENTIAL_FRACTIONS) cat 0 \<le> 1"
proof (cases "map_of ESSENTIAL_FRACTIONS cat")
  case None
  then show ?thesis by (simp add: dict_get_def)
next
  case (Some a)
  then have "(cat, a) \<in> set ESSENTIAL_FRACTIONS" by (rule map_of_SomeD)
  then have "0 \<le> a \<and> a \<le> 1" by (auto simp: ESSENTIAL_FRACTIONS_def)
  then show ?thesis using Some by (simp add: dict_get_def)
qed

lemma dict_get_nonneg: "\<forall>c v. d c = Some v \<longrightarrow> 0 \<le> v \<Longrightarrow> (0::real) \<le> dict_get d cat 0"
  by (auto simp: dict_get_def split: option.splits)

text \<open>A finite scaled amount of a baseline that is at least zero is at least zero.\<close>

lemma scale_float_finite_nonneg:
  assumes "0 \<le> b" "scale_expenditure_float (to_float b) salary avg_income be = Inr (Fin s)"
  shows "0 \<le> s \<and> s < FLOAT_OVERFLOW"
proof -
  have p: "0 \<le> b * (salary / avg_income) powr be" using assms(1) by simp
  show ?thesis
    using assms(2) to_float_nonneg [OF assms(1)] to_float_nonneg [OF p]
      to_float_nonneg [of "b * 1"] assms(1)
    by (auto simp: scale_expenditure_float_def Let_def inf_times_def to_float_def
        split: if_splits)
qed

lemma category_entry_finite:
  assumes "\<forall>c v. age_data c = Some v \<longrightarrow> 0 \<le> v" "\<forall>c v. region_data c = Some v \<longrightarrow> 0 \<le> v"
    "0 \<le> w_age" "0 \<le> w_reg"
    and "category_entry age_data region_data w_age w_reg salary avg_income cat = Inr info"
    and "scaled info = Fin s"
  shows "0 \<le> s \<and> (\<exists>e. essential info = Fin e \<and> 0 \<le> e \<and> e \<le> s)"
proof -
  let ?base = "w_age * dict_get age_data cat 0 + w_reg * dict_get region_data cat 0"
  let ?be = "dict_get (map_of INCOME_ELASTICITY) cat 1"
  let ?al = "dict_get (map_of ESSENTIAL_FRACTIONS) cat 0"
  have base: "0 \<le> ?base"
    using assms(3,4) dict_get_nonneg [OF assms(1)] dict_get_nonneg [OF assms(2)] by simp
  from assms(5) obtain sc where
    sc: "scale_expenditure_float (to_float ?base) salary avg_income ?be = Inr sc"
    and info: "scaled info = sc" "essential info = fmul sc (Fin ?al)"
    by (auto simp: category_entry_def Let_def split: sum.splits)
  have s: "0 \<le> s \<and> s < FLOAT_OVERFLOW"
    using scale_float_finite_nonneg [OF base] sc info(1) assms(6) by simp
  have al: "0 \<le> ?al" "?al \<le> 1" using alpha_range [of cat] by simp_all
  have "0 \<le> s * ?al" "s * ?al \<le> s"
    using s al by (simp_all add: mult_left_le)
  then have tf: "to_float (s * ?al) = Fin (s * ?al)"
    and le: "0 \<le> s * ?al" "s * ?al \<le> s"
    using s by (simp_all add: to_float_Fin)
  have "sc = Fin s" using info(1) assms(6) by simp
  then have "essential info = Fin (s * ?al)" using info(2) tf by simp
  then show ?thesis using s le by blast
qed

text \<open>What the loop leaves in \<^verbatim>\<open>by_category\<close>.\<close>

lemma category_loop_untouched:
  "category_loop cats entry (by_cat, te, ta) = Inr (by_cat', te', ta') \<Longrightarrow> c \<notin> set cats \<Longrightarrow>
   by_cat' c = by_cat c"
proof (induction cats arbitrary: by_cat te ta)
  case Nil
  then show ?case by simp
next
  case (Cons cat cats)
  then show ?case by (auto split: sum.splits)
qed

lemma category_loop_entries:
  "category_loop cats entry (by_cat, te, ta) = Inr (by_cat', te', ta') \<Longrightarrow> c \<in> set cats \<Longrightarrow>
   \<exists>info. entry c = Inr info \<and> by_cat' c = Some info"
proof (induction cats arbitrary: by_cat te ta)
  case Nil
  then show ?case by simp
next
  case (Cons cat cats)
  from Cons.prems(1) obtain info where
    e: "entry cat = Inr info"
    and rest: "category_loop cats entry
        (by_cat(cat \<mapsto> info), fadd te (essential info), fadd ta (scaled info))
        = Inr (by_cat', te', ta')"
    by (auto split: sum.splits)
  show ?case
  proof (cases "c \<in> set cats")
    case True
    then show ?thesis using Cons.IH [OF rest] by blast
  next
    case False
    then have "c = cat" using Cons.prems(2) by simp
    moreover have "by_cat' c = (by_cat(cat \<mapsto> info)) c"
      using category_loop_untouched [OF rest False] .
    ultimately show ?thesis using e by simp
  qed
qed

lemma category_loop_origin:
  "category_loop cats entry (by_cat, te, ta) = Inr (by_cat', te', ta') \<Longrightarrow>
   by_cat' c = Some info \<Longrightarrow> by_cat c = Some info \<or> (c \<in> set cats \<and> entry c = Inr info)"
  using category_loop_untouched [of cats entry by_cat te ta by_cat' te' ta' c]
    category_loop_entries [of cats entry by_cat te ta by_cat' te' ta' c]
  by (cases "c \<in> set cats") auto

lemma category_loop_totals:
  assumes "\<forall>c \<in> set cats. \<forall>info. entry c = Inr info \<longrightarrow>
      (\<exists>s e. scaled info = Fin s \<and> essential info = Fin e \<and> 0 \<le> e \<and> e \<le> s)"
  shows "category_loop cats entry (by_cat, te, ta) = Inr (by_cat', te', ta') \<Longrightarrow>
     fle (Fin 0) te \<Longrightarrow> fle te ta \<Longrightarrow> fle (Fin 0) te' \<and> fle te' ta'"
  using assms
proof (induction cats arbitrary: by_cat te ta)
  case Nil
  then show ?case by simp
next
  case (Cons cat cats)
  from Cons.prems(1) obtain info where
    e: "entry cat = Inr info"
    and rest: "category_loop cats entry
        (by_cat(cat \<mapsto> info), fadd te (essential info), fadd ta (scaled info))
        = Inr (by_cat', te', ta')"
    by (auto split: sum.splits)
  from Cons.prems(4) e obtain s es where
    v: "scaled info = Fin s" "essential info = Fin es" "0 \<le> es" "es \<le> s"
    by auto
  have step: "fle (Fin 0) (fadd te (essential info))"
    "fle (fadd te (essential info)) (fadd ta (scaled info))"
    using totals_step [OF Cons.prems(2,3) v(3,4)] v(1,2) by simp_all
  show ?case
    using Cons.IH [OF rest step] Cons.prems(4) by simp
qed

lemma compute_essential_expenses_Inr:
  assumes "compute_essential_expenses salary age state ed use_region_blend = Inr res"
  shows "\<exists>grp rgn age_data region_data w_age w_reg avg_income by_cat tot_ess tot_all.
     by_age ed grp = Some age_data \<and> by_region ed rgn = Some region_data
     \<and> 0 \<le> w_age \<and> 0 \<le> w_reg
     \<and> category_loop (categories ed)
          (category_entry age_data region_data w_age w_reg salary avg_income)
          (Map.empty, Fin 0, Fin 0) = Inr (by_cat, tot_ess, tot_all)
     \<and> total_essential res = fround tot_ess 2
     \<and> total_all res = fround tot_all 2
     \<and> by_category res = by_cat"
proof -
  note d = compute_essential_expenses_def
  obtain grp where g: "get_age_group age = Inr grp"
    using assms by (cases "get_age_group age") (simp_all add: d)
  obtain rgn where r: "get_region_for_state state = Inr rgn"
    using assms g by (cases "get_region_for_state state") (simp_all add: d)
  obtain fallback where f: "map_of AVG_INCOME_BY_AGE grp = Some fallback"
    using assms g r by (cases "map_of AVG_INCOME_BY_AGE grp") (simp_all add: d)
  obtain age_data where ad: "by_age ed grp = Some age_data"
    using assms g r f by (cases "by_age ed grp") (simp_all add: d Let_def)
  obtain region_data where rd: "by_region ed rgn = Some region_data"
    using assms g r f ad by (cases "by_region ed rgn") (simp_all add: d Let_def)
  define w_age :: real where "w_age = (if use_region_blend then 0.6 else 1.0)"
  define w_reg :: real where "w_reg = (if use_region_blend then 0.4 else 0.0)"
  define avg where "avg = dict_get (mean_income_by_age ed) grp fallback"
  have unfolded: "compute_essential_expenses salary age state ed use_region_blend =
      (case category_loop (categories ed)
              (category_entry age_data region_data w_age w_reg salary avg)
              (Map.empty, Fin 0, Fin 0) of
         Inl e \<Rightarrow> Inl e
       | Inr (by_cat, tot_ess, tot_all) \<Rightarrow>
           Inr \<lparr> total_essential = fround tot_ess 2,
                  total_all = fround tot_all 2,
                  by_category = by_cat,
                  age_group = grp,
                  region = rgn,
                  avg_income_for_age_group = avg,
                  income_ratio = (if avg > 0 then to_float (salary / avg) else Fin 1.0) \<rparr>)"
    unfolding avg_def w_age_def w_reg_def using g r f ad rd by (simp add: d Let_def)
  obtain by_cat tot_ess tot_all where
    loop: "category_loop (categories ed)
             (category_entry age_data region_data w_age w_reg salary avg)
             (Map.empty, Fin 0, Fin 0) = Inr (by_cat, tot_ess, tot_all)"
    using assms unfolding unfolded by (auto split: sum.splits)
  have w: "0 \<le> w_age" "0 \<le> w_reg" by (simp_all add: w_age_def w_reg_def)
  have "total_essential res = fround tot_ess 2 \<and> total_all res = fround tot_all 2
      \<and> by_category res = by_cat"
    using assms unfolding unfolded loop by auto
  then show ?thesis using ad rd w loop by blast
qed

subsection \<open>Evaluating the expenditure model\<close>

lemma expenses_eval:
  assumes "get_age_group age = Inr grp" "get_region_for_state state = Inr rgn"
    and "map_of AVG_INCOME_BY_AGE grp = Some fallback"
    and "by_age ed grp = Some age_data" "by_region ed rgn = Some region_data"
    and "dict_get (mean_income_by_age ed) grp fallback = avg"
    and "(if use_region_blend then 0.6 else 1.0) = w_age"
    and "(if use_region_blend then 0.4 else 0.0) = w_reg"
    and "category_loop (categories ed)
           (category_entry age_data region_data w_age w_reg salary avg)
           (Map.empty, Fin 0, Fin 0) = result"
  shows "compute_essential_expenses salary age state ed use_region_blend =
     (case result of
        Inl e \<Rightarrow> Inl e
      | Inr (by_cat, tot_ess, tot_all) \<Rightarrow>
          Inr \<lparr> total_essential = fround tot_ess 2,
                 total_all = fround tot_all 2,
                 by_category = by_cat,
                 age_group = grp,
                 region = rgn,
                 avg_income_for_age_group = avg,
                 income_ratio = (if avg > 0 then to_float (salary / avg) else Fin 1.0) \<rparr>)"
  unfolding assms(6-9) [symmetric] using assms(1-5)
  by (simp add: compute_essential_expenses_def Let_def)

lemma category_entry_eval:
  assumes "scale_expenditure_float
      (to_float (w_age * dict_get age_data cat 0 + w_reg * dict_get region_data cat 0))
      salary avg (dict_get (map_of INCOME_ELASTICITY) cat 1) = Inr sc"
  shows "\<exists>info. category_entry age_data region_data w_age w_reg salary avg cat = Inr info
     \<and> scaled info = sc
     \<and> essential info = fmul sc (Fin (dict_get (map_of ESSENTIAL_FRACTIONS) cat 0))"
  using assms by (simp add: category_entry_def Let_def)


lemma scale_float_in_range:
  assumes "0 < avg" "0 < salary" "salary / avg < FLOAT_OVERFLOW"
    "(salary / avg) powr be < FLOAT_OVERFLOW"
  shows "scale_expenditure_float b salary avg be = Inr (fmul b (Fin ((salary / avg) powr be)))"
  using assms by (simp add: scale_expenditure_float_def Let_def)


text \<open>Bounds on powers.\<close>

lemma powr_le_base: "1 \<le> r \<Longrightarrow> be \<le> 1 \<Longrightarrow> r powr be \<le> (r::real)"
  using powr_mono [of be 1 r] by simp

lemma ten_powr: "(10 ^ n :: real) powr be = 10 powr (real n * be)"
proof -
  have "(10 ^ n :: real) = 10 powr real n" by (simp add: powr_realpow)
  then show ?thesis by (simp add: powr_powr)
qed

lemma powr_lower: "10 ^ n \<le> r \<Longrightarrow> 0 \<le> be \<Longrightarrow> real n * be = real m \<Longrightarrow> (10 ^ m :: real) \<le> r powr be"
proof -
  assume a: "10 ^ n \<le> r" "0 \<le> be" "real n * be = real m"
  have "(10 ^ n :: real) powr be \<le> r powr be" using a(1,2) by (intro powr_mono2) simp_all
  moreover have "(10 ^ n :: real) powr be = 10 ^ m"
    unfolding ten_powr a(3) by (simp add: powr_realpow)
  ultimately show ?thesis by simp
qed

lemma powr_upper: "0 < r \<Longrightarrow> r \<le> 10 ^ n \<Longrightarrow> 0 \<le> be \<Longrightarrow> real n * be \<le> real m \<Longrightarrow> r powr be \<le> (10 ^ m :: real)"
proof -
  assume a: "0 < r" "r \<le> 10 ^ n" "0 \<le> be" "real n * be \<le> real m"
  have "r powr be \<le> (10 ^ n :: real) powr be" using a(1,2,3) by (intro powr_mono2) simp_all
  also have "\<dots> = 10 powr (real n * be)" by (rule ten_powr)
  also have "\<dots> \<le> 10 powr real m" using a(4) by (intro powr_mono) simp_all
  also have "\<dots> = 10 ^ m" by (simp add: powr_realpow)
  finally show ?thesis .
qed

lemma fadd_nonneg: "fle (Fin 0) x \<Longrightarrow> fle (Fin 0) y \<Longrightarrow> fle (Fin 0) (fadd x y)"
proof -
  assume a: "fle (Fin 0) x" "fle (Fin 0) y"
  then consider "x = PInf" | "y = PInf" | p q where "x = Fin p" "0 \<le> p" "y = Fin q" "0 \<le> q"
    by (auto simp: fle_zero_cases)
  then show ?thesis
  proof cases
    case 1
    then show ?thesis using a(2) by (auto simp: fle_zero_cases)
  next
    case 2
    then show ?thesis using a(1) by (auto simp: fle_zero_cases)
  next
    case 3
    then show ?thesis using to_float_nonneg [of "p + q"] by auto
  qed
qed

lemma fadd_PInf: "fle (Fin 0) x \<Longrightarrow> fadd x PInf = PInf"
  by (auto simp: fle_zero_cases)

lemma fmul_to_float_nonneg: "0 \<le> b \<Longrightarrow> 0 < p \<Longrightarrow> fle (Fin 0) (fmul (to_float b) (Fin p))"
  using to_float_nonneg [of b] to_float_nonneg [of "b * p"]
  by (auto simp: inf_times_def)

lemma loop3_nan:
  assumes "entry c1 = Inr i1" "entry c2 = Inr i2" "entry c3 = Inr i3"
    and "fle (Fin 0) (scaled i1)" "fle (Fin 0) (scaled i2)"
    and "scaled i3 = PInf" "essential i3 = NaN"
  shows "\<exists>by_cat. category_loop [c1, c2, c3] entry (Map.empty, Fin 0, Fin 0)
     = Inr (by_cat, NaN, PInf)"
proof -
  have "fle (Fin 0) (fadd (fadd (Fin 0) (scaled i1)) (scaled i2))"
    using assms(4,5) by (intro fadd_nonneg) simp_all
  then have "fadd (fadd (fadd (Fin 0) (scaled i1)) (scaled i2)) PInf = PInf"
    by (rule fadd_PInf)
  then show ?thesis using assms(1,2,3,6,7) by (simp add: fadd_NaN_right)
qed


text \<open>The table with Entertainment, for the age group Under 25 in the region Northeast.\<close>

lemma entertainment_table:
  "by_age sample_exp_data_entertainment ''Under 25''
     = Some (map_of [(''Food'', 7215), (''Housing'', 16853), (''Entertainment'', 2000)])"
  "by_region sample_exp_data_entertainment ''Northeast''
     = Some (map_of [(''Food'', 11372), (''Housing'', 29469)])"
  "dict_get (mean_income_by_age sample_exp_data_entertainment) ''Under 25'' 42000 = 48514"
  "categories sample_exp_data_entertainment = [''Food'', ''Housing'', ''Entertainment'']"
  by (simp_all add: sample_exp_data_entertainment_def sample_exp_data_def dict_get_def)


lemma under_25_northeast:
  "get_age_group 23 = Inr ''Under 25''"
  "get_region_for_state ''Pennsylvania'' = Inr ''Northeast''"
  "map_of AVG_INCOME_BY_AGE ''Under 25'' = Some 42000"
  by (simp_all add: get_age_group_def AGE_BREAKS_def get_region_for_state_def
      STATE_TO_REGION_def AVG_INCOME_BY_AGE_def)

text \<open>
  A category with an elasticity of at most 1 and baselines that are at least zero: for
  a salary from the reference income up to \<open>10 ^ 300\<close> times it, the entry is
  computed and its scaled amount is at least zero.
\<close>

lemma inelastic_entry:
  assumes "\<forall>c v. age_data c = Some v \<longrightarrow> 0 \<le> v" "\<forall>c v. region_data c = Some v \<longrightarrow> 0 \<le> v"
    and "0 \<le> w_age" "0 \<le> w_reg"
    and "0 < avg" "avg \<le> salary" "salary / avg \<le> 10 ^ 300"
    and "dict_get (map_of INCOME_ELASTICITY) cat 1 \<le> 1"
  shows "\<exists>info. category_entry age_data region_data w_age w_reg salary avg cat = Inr info
     \<and> fle (Fin 0) (scaled info)"
proof -
  let ?be = "dict_get (map_of INCOME_ELASTICITY) cat 1"
  let ?b = "w_age * dict_get age_data cat 0 + w_reg * dict_get region_data cat 0"
  have sal: "0 < salary" using assms(5,6) by simp
  have r: "1 \<le> salary / avg" using assms(5,6) by simp
  have fo: "salary / avg < FLOAT_OVERFLOW"
    using assms(7) FLOAT_OVERFLOW_bounds(1) by (simp add: FLOAT_OVERFLOW_def)
  have "(salary / avg) powr ?be \<le> salary / avg" using r assms(8) by (rule powr_le_base)
  then have p: "(salary / avg) powr ?be < FLOAT_OVERFLOW" using fo by simp
  have pos: "0 < (salary / avg) powr ?be" using sal assms(5) by simp
  have b: "0 \<le> ?b"
    using assms(3,4) dict_get_nonneg [OF assms(1)] dict_get_nonneg [OF assms(2)] by simp
  have "scale_expenditure_float (to_float ?b) salary avg ?be
      = Inr (fmul (to_float ?b) (Fin ((salary / avg) powr ?be)))"
    using assms(5) sal fo p by (rule scale_float_in_range)
  from category_entry_eval [OF this] fmul_to_float_nonneg [OF b pos]
  show ?thesis by auto
qed

lemma entertainment_nonneg:
  "\<forall>c v. map_of [(''Food'', 7215), (''Housing'', 16853), (''Entertainment'', 2000)] c
       = Some v \<longrightarrow> (0::real) \<le> v"
  "\<forall>c v. map_of [(''Food'', 11372), (''Housing'', 29469)] c = Some v \<longrightarrow> (0::real) \<le> v"
  by (auto split: if_splits)

lemma elasticities:
  "dict_get (map_of INCOME_ELASTICITY) ''Food'' 1 \<le> 1"
  "dict_get (map_of INCOME_ELASTICITY) ''Housing'' 1 \<le> 1"
  "dict_get (map_of INCOME_ELASTICITY) ''Entertainment'' 1 = 1.20"
  "dict_get (map_of ESSENTIAL_FRACTIONS) ''Entertainment'' 0 = 0"
  by (simp_all add: dict_get_def INCOME_ELASTICITY_def ESSENTIAL_FRACTIONS_def)

lemma entertainment_baseline:
  "0.6 * dict_get (map_of [(''Food'', 7215), (''Housing'', 16853), (''Entertainment'', 2000)])
           ''Entertainment'' 0
   + 0.4 * dict_get (map_of [(''Food'', 11372), (''Housing'', 29469)]) ''Entertainment'' 0
   = (1200 :: real)"
  by (simp add: dict_get_def)

text \<open>
  Entertainment, with its elasticity of 1.20 and its blended baseline of 1200, for a
  salary \<open>S\<close> and the reference income 48514. When the income ratio lies between
  \<open>10 ^ 255\<close> and \<open>10 ^ 256\<close>, the power is a finite float, between
  \<open>10 ^ 306\<close> and \<open>10 ^ 308\<close>, and its product with the baseline is not. When
  the ratio is \<open>10 ^ 295\<close> or more, the power itself is too large.
\<close>

lemma nan_entry:
  fixes S :: real
  assumes lo: "10 ^ 255 \<le> S / 48514" and hi: "S / 48514 \<le> 10 ^ 256"
  shows "\<exists>info. category_entry
       (map_of [(''Food'', 7215), (''Housing'', 16853), (''Entertainment'', 2000)])
       (map_of [(''Food'', 11372), (''Housing'', 29469)])
       0.6 0.4 S 48514 ''Entertainment'' = Inr info
     \<and> scaled info = PInf \<and> essential info = NaN"
proof -
  define r where "r = S / 48514"
  define p where "p = r powr 1.20"
  have r: "10 ^ 255 \<le> r" "r \<le> 10 ^ 256" using lo hi by (simp_all add: r_def)
  have "0 < r" using r(1) by (rule less_le_trans [rotated]) simp
  then have S: "0 < S" by (simp add: r_def)
  have fo: "r < FLOAT_OVERFLOW"
    using r(2) FLOAT_OVERFLOW_bounds(1) by (rule le_less_trans [OF _ less_trans [rotated]]) simp
  have p_lo: "10 ^ 306 \<le> p" unfolding p_def by (rule powr_lower [OF r(1)]) simp_all
  have p_hi: "p \<le> 10 ^ 308"
    unfolding p_def by (rule powr_upper [OF \<open>0 < r\<close> r(2)]) simp_all
  have p_fo: "p < FLOAT_OVERFLOW" using p_hi FLOAT_OVERFLOW_bounds(1) by (rule le_less_trans)
  have "FLOAT_OVERFLOW \<le> 1200 * (10 ^ 306 :: real)" by (simp add: FLOAT_OVERFLOW_def)
  also have "\<dots> \<le> 1200 * p" using p_lo by (intro mult_left_mono) simp_all
  finally have prod: "to_float (1200 * p) = PInf" by (simp add: to_float_def)
  have base: "to_float 1200 = Fin 1200" by (simp add: to_float_def FLOAT_OVERFLOW_def)
  have "scale_expenditure_float (to_float 1200) S 48514 1.20
      = Inr (fmul (to_float 1200) (Fin ((S / 48514) powr 1.20)))"
    by (rule scale_float_in_range [OF _ S fo [unfolded r_def] p_fo [unfolded p_def r_def]])
       simp
  also have "fmul (to_float 1200) (Fin ((S / 48514) powr 1.20)) = PInf"
    unfolding base fmul.simps p_def [unfolded r_def, symmetric] by (rule prod)
  finally have sc: "scale_expenditure_float (to_float 1200) S 48514 1.20 = Inr PInf" .
  from category_entry_eval
      [where w_age = "0.6" and w_reg = "0.4" and cat = "''Entertainment''"
         and age_data = "map_of [(''Food'', 7215), (''Housing'', 16853), (''Entertainment'', 2000)]"
         and region_data = "map_of [(''Food'', 11372), (''Housing'', 29469)]"
         and salary = S and avg = 48514 and sc = PInf,
       unfolded entertainment_baseline elasticities, OF sc]
  obtain info where
    "category_entry
       (map_of [(''Food'', 7215), (''Housing'', 16853), (''Entertainment'', 2000)])
       (map_of [(''Food'', 11372), (''Housing'', 29469)])
       0.6 0.4 S 48514 ''Entertainment'' = Inr info"
    "scaled info = PInf" "essential info = fmul PInf (Fin 0)"
    by blast
  moreover have "fmul PInf (Fin 0) = NaN" by (simp add: inf_times_def)
  ultimately show ?thesis by metis
qed


text \<open>The two inelastic categories before it are computed at both salaries.\<close>

lemma inelastic_entries:
  fixes S :: real
  assumes "1 \<le> S / 48514" "S / 48514 \<le> 10 ^ 300"
  shows "\<exists>i1 i2.
       category_entry
         (map_of [(''Food'', 7215), (''Housing'', 16853), (''Entertainment'', 2000)])
         (map_of [(''Food'', 11372), (''Housing'', 29469)])
         0.6 0.4 S 48514 ''Food'' = Inr i1 \<and> fle (Fin 0) (scaled i1)
     \<and> category_entry
         (map_of [(''Food'', 7215), (''Housing'', 16853), (''Entertainment'', 2000)])
         (map_of [(''Food'', 11372), (''Housing'', 29469)])
         0.6 0.4 S 48514 ''Housing'' = Inr i2 \<and> fle (Fin 0) (scaled i2)"
proof -
  have range: "(0::real) < 48514" "48514 \<le> S" using assms(1) by simp_all
  have weights: "(0::real) \<le> 0.6" "(0::real) \<le> 0.4" by simp_all
  show ?thesis
    using inelastic_entry [OF entertainment_nonneg weights range assms(2) elasticities(1)]
      inelastic_entry [OF entertainment_nonneg weights range assms(2) elasticities(2)]
    by blast
qed

lemma expenses_eval_entertainment:
  assumes "category_loop [''Food'', ''Housing'', ''Entertainment'']
      (category_entry
         (map_of [(''Food'', 7215), (''Housing'', 16853), (''Entertainment'', 2000)])
         (map_of [(''Food'', 11372), (''Housing'', 29469)])
         0.6 0.4 S 48514)
      (Map.empty, Fin 0, Fin 0) = result"
  shows "compute_essential_expenses S 23 ''Pennsylvania'' sample_exp_data_entertainment True =
     (case result of
        Inl e \<Rightarrow> Inl e
      | Inr (by_cat, tot_ess, tot_all) \<Rightarrow>
          Inr \<lparr> total_essential = fround tot_ess 2,
                 total_all = fround tot_all 2,
                 by_category = by_cat,
                 age_group = ''Under 25'',
                 region = ''Northeast'',
                 avg_income_for_age_group = 48514,
                 income_ratio = (if (48514::real) > 0 then to_float (S / 48514) else Fin 1.0) \<rparr>)"
proof -
  have w: "(if True then 0.6 else 1.0) = (0.6::real)" "(if True then 0.4 else 0.0) = (0.4::real)"
    by simp_all
  show ?thesis
    by (rule expenses_eval [OF under_25_northeast entertainment_table(1,2,3) w
          assms [folded entertainment_table(4)]])
qed

lemma nan_totals:
  fixes S :: real
  assumes "10 ^ 255 \<le> S / 48514" "S / 48514 \<le> 10 ^ 256"
  shows "\<exists>ex. compute_essential_expenses S 23 ''Pennsylvania''
       sample_exp_data_entertainment True = Inr ex
     \<and> total_essential ex = NaN \<and> total_all ex = PInf"
proof -
  have "1 \<le> S / 48514" using assms(1) by (rule order_trans [rotated]) simp
  moreover have "S / 48514 \<le> 10 ^ 300" using assms(2) by (rule order_trans) simp
  ultimately obtain i1 i2 where
    i: "category_entry
         (map_of [(''Food'', 7215), (''Housing'', 16853), (''Entertainment'', 2000)])
         (map_of [(''Food'', 11372), (''Housing'', 29469)])
         0.6 0.4 S 48514 ''Food'' = Inr i1" "fle (Fin 0) (scaled i1)"
       "category_entry
         (map_of [(''Food'', 7215), (''Housing'', 16853), (''Entertainment'', 2000)])
         (map_of [(''Food'', 11372), (''Housing'', 29469)])
         0.6 0.4 S 48514 ''Housing'' = Inr i2" "fle (Fin 0) (scaled i2)"
    using inelastic_entries by blast
  obtain i3 where i3: "category_entry
         (map_of [(''Food'', 7215), (''Housing'', 16853), (''Entertainment'', 2000)])
         (map_of [(''Food'', 11372), (''Housing'', 29469)])
         0.6 0.4 S 48514 ''Entertainment'' = Inr i3" "scaled i3 = PInf" "essential i3 = NaN"
    using nan_entry [OF assms] by blast
  obtain by_cat where loop: "category_loop [''Food'', ''Housing'', ''Entertainment'']
      (category_entry
         (map_of [(''Food'', 7215), (''Housing'', 16853), (''Entertainment'', 2000)])
         (map_of [(''Food'', 11372), (''Housing'', 29469)])
         0.6 0.4 S 48514)
      (Map.empty, Fin 0, Fin 0) = Inr (by_cat, NaN, PInf)"
    using loop3_nan [OF i(1) i(3) i3(1) i(2) i(4) i3(2,3)] by blast
  show ?thesis unfolding expenses_eval_entertainment [OF loop] by simp
qed


lemma to_float_small: "- (10 ^ 9) \<le> x \<Longrightarrow> x \<le> 10 ^ 9 \<Longrightarrow> to_float x = Fin x"
  by (rule to_float_Fin) (simp add: FLOAT_OVERFLOW_def abs_less_iff)

lemma small_ratio: "\<not> FLOAT_OVERFLOW \<le> 1"
  by (simp add: FLOAT_OVERFLOW_def)

lemmas engine_defs = compute_essential_expenses_def get_age_group_def AGE_BREAKS_def
  get_region_for_state_def STATE_TO_REGION_def AVG_INCOME_BY_AGE_def dict_get_def
  category_entry_def scale_expenditure_float_def INCOME_ELASTICITY_def
  ESSENTIAL_FRACTIONS_def to_float_small small_ratio

lemma sample_expenses:
  "\<exists>res. compute_essential_expenses 48514 23 ''Pennsylvania'' sample_exp_data True = Inr res
     \<and> total_essential res = Fin 28113.86 \<and> total_all res = Fin 30777.20
     \<and> map_option essential (by_category res ''Food'') = Some (Fin 6214.46)
     \<and> map_option scaled (by_category res ''Food'') = Some (Fin 8877.80)
     \<and> (\<forall>cat info. by_category res cat = Some info \<longrightarrow> (\<exists>s. scaled info = Fin s))"
  by (simp add: engine_defs sample_exp_data_def round_nd_def py_round_def Let_def)
     (auto intro: exI [of _ "44389 / 5"] exI [of _ "109497 / 5"])


text \<open>
  C8, as the claim states it, does not hold: a scaled amount can be too large for a
  float. With the table above, whose amounts are not negative, a salary of
  \<open>10 ^ 260\<close>, age 23 and Pennsylvania, the scaled amount of Entertainment is the
  positive infinity; its essential fraction is 0, and an infinity times 0 is not a
  number. The sum of the essential amounts is then not a number either, while the sum
  of the scaled amounts is the infinity, and \<^verbatim>\<open>nan <= inf\<close> is false.
\<close>

theorem essential_nan_counterexample:
  "map_sum id total_essential
     (compute_essential_expenses (10 ^ 260) 23 ''Pennsylvania''
        sample_exp_data_entertainment True) = Inr NaN
   \<and> map_sum id total_all
     (compute_essential_expenses (10 ^ 260) 23 ''Pennsylvania''
        sample_exp_data_entertainment True) = Inr PInf
   \<and> \<not> fle NaN PInf"
proof -
  have "10 ^ 255 \<le> (10 ^ 260 / 48514 :: real)" "(10 ^ 260 / 48514 :: real) \<le> 10 ^ 256"
    by simp_all
  from nan_totals [OF this] obtain ex where
    "compute_essential_expenses (10 ^ 260) 23 ''Pennsylvania''
       sample_exp_data_entertainment True = Inr ex"
    "total_essential ex = NaN" "total_all ex = PInf"
    by blast
  then show ?thesis by simp
qed

text \<open>
  C8, amended. Whenever \<open>compute_essential_expenses\<close> returns a result for a table
  whose baseline amounts are not negative, and every scaled amount of the result is a
  finite float, the essential amount of each category is at most the scaled amount of
  that category, and the returned \<open>total_essential\<close> is at most the returned
  \<open>total_all\<close>. The comparison is Python's \<^verbatim>\<open><=\<close>; the totals themselves may be
  infinite.
\<close>

theorem essential_le_total:
  assumes "nonneg_baselines ed"
    and "compute_essential_expenses salary age state ed use_region_blend = Inr res"
    and "\<forall>cat info. by_category res cat = Some info \<longrightarrow> (\<exists>s. scaled info = Fin s)"
  shows "(\<forall>cat info. by_category res cat = Some info \<longrightarrow> fle (essential info) (scaled info))
     \<and> fle (total_essential res) (total_all res)"
proof -
  from compute_essential_expenses_Inr [OF assms(2)]
  obtain grp rgn age_data region_data w_age w_reg avg_income by_cat tot_ess tot_all where
    ad: "by_age ed grp = Some age_data" and rd: "by_region ed rgn = Some region_data"
    and w: "0 \<le> w_age" "0 \<le> w_reg"
    and loop: "category_loop (categories ed)
          (category_entry age_data region_data w_age w_reg salary avg_income)
          (Map.empty, Fin 0, Fin 0) = Inr (by_cat, tot_ess, tot_all)"
    and fields: "total_essential res = fround tot_ess 2"
      "total_all res = fround tot_all 2" "by_category res = by_cat"
    by blast
  let ?entry = "category_entry age_data region_data w_age w_reg salary avg_income"
  have nn: "\<forall>c v. age_data c = Some v \<longrightarrow> 0 \<le> v" "\<forall>c v. region_data c = Some v \<longrightarrow> 0 \<le> v"
    using assms(1) ad rd unfolding nonneg_baselines_def by blast+
  have stored: "?entry c = Inr info \<Longrightarrow> c \<in> set (categories ed) \<Longrightarrow> by_cat c = Some info"
    for c info
    using category_loop_entries [OF loop] by fastforce
  have fin: "\<exists>s e. scaled info = Fin s \<and> essential info = Fin e \<and> 0 \<le> e \<and> e \<le> s"
    if en: "?entry c = Inr info" and mem: "c \<in> set (categories ed)" for c info
  proof -
    obtain s where s: "scaled info = Fin s"
      using stored [OF en mem] assms(3) fields(3) by blast
    show ?thesis
      using category_entry_finite [OF nn w en s] s by blast
  qed
  have totals: "fle (Fin 0) tot_ess \<and> fle tot_ess tot_all"
    by (rule category_loop_totals [OF _ loop]) (use fin in auto)
  have each: "fle (essential info) (scaled info)" if st: "by_cat c = Some info" for c info
  proof -
    have "c \<in> set (categories ed) \<and> ?entry c = Inr info"
      using category_loop_origin [OF loop st] by simp
    then show ?thesis using fin by fastforce
  qed
  show ?thesis using totals each fields by (simp add: fle_fround)
qed

theorem essential_le_total_witness:
  "\<exists>res. compute_essential_expenses 48514 23 ''Pennsylvania'' sample_exp_data True = Inr res
     \<and> total_essential res = Fin 28113.86 \<and> total_all res = Fin 30777.20
     \<and> fle (total_essential res) (total_all res)
     \<and> (\<forall>cat info. by_category res cat = Some info \<longrightarrow> fle (essential info) (scaled info))"
proof -
  from sample_expenses obtain res where
    r: "compute_essential_expenses 48514 23 ''Pennsylvania'' sample_exp_data True = Inr res"
    and v: "total_essential res = Fin 28113.86" "total_all res = Fin 30777.20"
    and f: "\<forall>cat info. by_category res cat = Some info \<longrightarrow> (\<exists>s. scaled info = Fin s)"
    by blast
  show ?thesis
    using essential_le_total [OF sample_nonneg r f] r v by blast
qed

subsection \<open>Composition\<close>






































end
